theory Spec2Isabelle
  imports Main "HOL-Library.Word"
begin

section \<open>The vertex layout of SolidBrushVertex.h\<close>

text \<open>
  The header declares three type aliases, one struct under \<^verbatim>\<open>#pragma pack(push, 4)\<close>
  and one active \<^verbatim>\<open>static_assert\<close> on the struct's size. Its meaning is the layout the
  C compiler assigns to the struct: the offset, size and alignment of every member, and
  the size and alignment of the whole. The model below is that layout computation, for
  non-bit-field members, as the Itanium C ABI used by clang performs it: a member is
  placed at the next multiple of its alignment, its alignment is capped by the pack
  value in force, the struct's alignment is the largest member alignment, and the
  struct's size is its data size rounded up to its alignment.
\<close>

subsection \<open>Object types and the compilation target\<close>

text \<open>An object type, as far as layout is concerned: \<^verbatim>\<open>sizeof\<close> and \<^verbatim>\<open>_Alignof\<close>.\<close>

record ctype =
  size_of :: nat
  align_of :: nat

text \<open>
  The types the header uses and does not declare: the built-in \<^verbatim>\<open>float\<close> and
  \<^verbatim>\<open>_Float16\<close>, \<^verbatim>\<open>MTLPackedFloat3\<close> of \<^verbatim>\<open><metal/metal.h>\<close> and \<^verbatim>\<open>simd_float2\<close> of
  \<^verbatim>\<open><simd/simd.h>\<close>. They are parameters of the model.
\<close>

record target =
  float_t :: ctype
  Float16_t :: ctype
  MTLPackedFloat3 :: ctype
  simd_float2 :: ctype

text \<open>
  The targets the two included frameworks exist for (clang on arm64 and x86-64) agree on
  these four types: IEEE binary32 and binary16 scalars with natural alignment,
  \<^verbatim>\<open>MTLPackedFloat3\<close> a struct of three \<^verbatim>\<open>float\<close> (12 bytes, alignment 4, the packed_float3
  row of the Metal Shading Language table the header's comment cites), and \<^verbatim>\<open>simd_float2\<close>
  a two-lane vector of \<^verbatim>\<open>float\<close> (8 bytes, alignment 8).
\<close>

definition metal_target :: target where
  "metal_target =
     \<lparr> float_t = \<lparr> size_of = 4, align_of = 4 \<rparr>,
       Float16_t = \<lparr> size_of = 2, align_of = 2 \<rparr>,
       MTLPackedFloat3 = \<lparr> size_of = 12, align_of = 4 \<rparr>,
       simd_float2 = \<lparr> size_of = 8, align_of = 8 \<rparr> \<rparr>"

subsection \<open>The pack pragma\<close>

text \<open>
  \<^verbatim>\<open>#pragma pack(push, n)\<close> saves the pack value in force and sets it to \<open>n\<close>;
  \<^verbatim>\<open>#pragma pack(pop)\<close> restores the saved one. \<open>None\<close> is the default: no cap on
  member alignment.
\<close>

record pack_state =
  pack_current :: "nat option"
  pack_saved :: "nat option list"

definition pack_default :: pack_state where
  "pack_default = \<lparr> pack_current = None, pack_saved = [] \<rparr>"

definition pragma_pack_push :: "nat \<Rightarrow> pack_state \<Rightarrow> pack_state" where
  "pragma_pack_push n s =
     \<lparr> pack_current = Some n, pack_saved = pack_current s # pack_saved s \<rparr>"

definition pragma_pack_pop :: "pack_state \<Rightarrow> pack_state" where
  "pragma_pack_pop s =
     (case pack_saved s of
        [] \<Rightarrow> s
      | p # ps \<Rightarrow> \<lparr> pack_current = p, pack_saved = ps \<rparr>)"

subsection \<open>Struct layout\<close>

definition align_to :: "nat \<Rightarrow> nat \<Rightarrow> nat" where
  "align_to n a = ((n + a - 1) div a) * a"

definition member_align :: "nat option \<Rightarrow> ctype \<Rightarrow> nat" where
  "member_align pack t =
     (case pack of None \<Rightarrow> align_of t | Some p \<Rightarrow> min p (align_of t))"

record field =
  field_name :: string
  field_offset :: nat
  field_size :: nat
  field_align :: nat

record struct_layout =
  layout_fields :: "field list"
  data_size :: nat
  struct_align :: nat

text \<open>Before the first member: no data, alignment 1.\<close>

definition empty_layout :: struct_layout where
  "empty_layout = \<lparr> layout_fields = [], data_size = 0, struct_align = 1 \<rparr>"

text \<open>Placing one member after those already laid out.\<close>

definition layout_field :: "nat option \<Rightarrow> struct_layout \<Rightarrow> string \<times> ctype \<Rightarrow> struct_layout" where
  "layout_field pack L m =
     (let a = member_align pack (snd m);
          off = align_to (data_size L) a
      in \<lparr> layout_fields = layout_fields L @
             [\<lparr> field_name = fst m, field_offset = off,
                field_size = size_of (snd m), field_align = a \<rparr>],
           data_size = off + size_of (snd m),
           struct_align = max (struct_align L) a \<rparr>)"

definition c_struct :: "nat option \<Rightarrow> (string \<times> ctype) list \<Rightarrow> struct_layout" where
  "c_struct pack ms = foldl (layout_field pack) empty_layout ms"

text \<open>\<^verbatim>\<open>sizeof\<close> of the struct: the data size with the tail padding.\<close>

definition struct_size :: "struct_layout \<Rightarrow> nat" where
  "struct_size L = align_to (data_size L) (struct_align L)"

definition struct_type :: "struct_layout \<Rightarrow> ctype" where
  "struct_type L = \<lparr> size_of = struct_size L, align_of = struct_align L \<rparr>"

text \<open>\<^verbatim>\<open>offsetof\<close>: the offset of the member of that name, if there is one.\<close>

fun find_field :: "string \<Rightarrow> field list \<Rightarrow> field option" where
  "find_field n [] = None"
| "find_field n (f # fs) = (if field_name f = n then Some f else find_field n fs)"

definition offsetof :: "struct_layout \<Rightarrow> string \<Rightarrow> nat option" where
  "offsetof L n = map_option field_offset (find_field n (layout_fields L))"

subsection \<open>The declarations of the header\<close>

text \<open>
  \<^verbatim>\<open>typedef MTLPackedFloat3 packed_float3;\<close>
  \<^verbatim>\<open>typedef simd_float2 packed_float2;\<close>
  \<^verbatim>\<open>typedef struct { _Float16 x, y, z; } packed_half3;\<close>
  The third is declared before the pack pragma, under the default packing.
\<close>

definition packed_float3 :: "target \<Rightarrow> ctype" where
  "packed_float3 T = MTLPackedFloat3 T"

definition packed_float2 :: "target \<Rightarrow> ctype" where
  "packed_float2 T = simd_float2 T"

definition packed_half3_layout :: "target \<Rightarrow> struct_layout" where
  "packed_half3_layout T =
     c_struct (pack_current pack_default)
       [(''x'', Float16_t T), (''y'', Float16_t T), (''z'', Float16_t T)]"

definition packed_half3 :: "target \<Rightarrow> ctype" where
  "packed_half3 T = struct_type (packed_half3_layout T)"

text \<open>\<^verbatim>\<open>#pragma pack(push, 4)\<close>, the struct, \<^verbatim>\<open>#pragma pack(pop)\<close>.\<close>

definition pack_at_struct :: pack_state where
  "pack_at_struct = pragma_pack_push 4 pack_default"

definition pack_after_struct :: pack_state where
  "pack_after_struct = pragma_pack_pop pack_at_struct"

definition SolidBrushVertex :: "target \<Rightarrow> struct_layout" where
  "SolidBrushVertex T =
     c_struct (pack_current pack_at_struct)
       [(''position'', packed_float3 T),
        (''normal'', packed_float3 T),
        (''bitangent'', packed_float3 T),
        (''curveDistance'', float_t T),
        (''color'', packed_half3 T)]"

text \<open>
  The struct with the member the header keeps in a comment put back where the comment
  stands: \<^verbatim>\<open>packed_float2 materialProperties;\<close> between \<^verbatim>\<open>bitangent\<close> and
  \<^verbatim>\<open>curveDistance\<close>.
\<close>

definition SolidBrushVertex_materialProperties :: "target \<Rightarrow> struct_layout" where
  "SolidBrushVertex_materialProperties T =
     c_struct (pack_current pack_at_struct)
       [(''position'', packed_float3 T),
        (''normal'', packed_float3 T),
        (''bitangent'', packed_float3 T),
        (''materialProperties'', packed_float2 T),
        (''curveDistance'', float_t T),
        (''color'', packed_half3 T)]"

text \<open>
  \<^verbatim>\<open>static_assert(sizeof(struct SolidBrushVertex) == 48, "ensure packing");\<close>
  A false condition stops the build with the message; the header has no other way to
  fail.
\<close>

datatype build_error = Static_assert_failed string

definition static_assert :: "bool \<Rightarrow> string \<Rightarrow> build_error + unit" where
  "static_assert c msg = (if c then Inr () else Inl (Static_assert_failed msg))"

definition translation_unit :: "target \<Rightarrow> build_error + struct_layout" where
  "translation_unit T =
     (case static_assert (struct_size (SolidBrushVertex T) = 48) ''ensure packing'' of
        Inl e \<Rightarrow> Inl e
      | Inr _ \<Rightarrow> Inr (SolidBrushVertex T))"

subsection \<open>Arrays\<close>

text \<open>
  An array of \<open>t\<close> holds its elements back to back: element \<open>i\<close> begins
  \<open>i * sizeof(t)\<close> bytes after the array's first byte.
\<close>

definition array_element_offset :: "ctype \<Rightarrow> nat \<Rightarrow> nat" where
  "array_element_offset t i = i * size_of t"

text \<open>Whether byte \<open>b\<close> of the struct belongs to one of its members.\<close>

definition field_covers :: "field \<Rightarrow> nat \<Rightarrow> bool" where
  "field_covers f b = (field_offset f \<le> b \<and> b < field_offset f + field_size f)"

definition member_byte :: "struct_layout \<Rightarrow> nat \<Rightarrow> bool" where
  "member_byte L b = list_ex (\<lambda>f. field_covers f b) (layout_fields L)"


subsection \<open>Member access in the object representation\<close>

text \<open>
  An object of the struct is \<open>sizeof\<close> bytes; the value of a member is the bytes of its
  object representation. Writing a member copies its bytes to the member's offset,
  reading copies them from there. An access that would leave the object is \<open>None\<close>.
\<close>

type_synonym byte = "8 word"

definition store :: "byte list \<Rightarrow> nat \<Rightarrow> byte list \<Rightarrow> byte list option" where
  "store obj off v =
     (if off + length v \<le> length obj
      then Some (take off obj @ v @ drop (off + length v) obj)
      else None)"

definition load :: "byte list \<Rightarrow> nat \<Rightarrow> nat \<Rightarrow> byte list option" where
  "load obj off n =
     (if off + n \<le> length obj then Some (take n (drop off obj)) else None)"

definition store_field :: "field \<Rightarrow> byte list \<Rightarrow> byte list \<Rightarrow> byte list option" where
  "store_field f v obj =
     (if length v = field_size f then store obj (field_offset f) v else None)"

definition load_field :: "field \<Rightarrow> byte list \<Rightarrow> byte list option" where
  "load_field f obj = load obj (field_offset f) (field_size f)"

text \<open>Writing every member of the struct, in declared order, from a table of values.\<close>

fun store_fields :: "field list \<Rightarrow> (string \<Rightarrow> byte list) \<Rightarrow> byte list \<Rightarrow> byte list option" where
  "store_fields [] vals obj = Some obj"
| "store_fields (f # fs) vals obj =
     (case store_field f (vals (field_name f)) obj of
        None \<Rightarrow> None
      | Some obj' \<Rightarrow> store_fields fs vals obj')"

text \<open>Two members whose byte ranges do not meet; a member list in which no two meet.\<close>

definition separate :: "field \<Rightarrow> field \<Rightarrow> bool" where
  "separate f g =
     (field_offset g + field_size g \<le> field_offset f
      \<or> field_offset f + field_size f \<le> field_offset g)"

fun all_separate :: "field list \<Rightarrow> bool" where
  "all_separate [] = True"
| "all_separate (f # fs) = (list_all (separate f) fs \<and> all_separate fs)"

section \<open>Evaluation of the layouts\<close>

lemma metal_target_types:
  "float_t metal_target = \<lparr> size_of = 4, align_of = 4 \<rparr>"
  "Float16_t metal_target = \<lparr> size_of = 2, align_of = 2 \<rparr>"
  "MTLPackedFloat3 metal_target = \<lparr> size_of = 12, align_of = 4 \<rparr>"
  "simd_float2 metal_target = \<lparr> size_of = 8, align_of = 8 \<rparr>"
  by (simp_all add: metal_target_def)

lemmas layout_defs =
  c_struct_def layout_field_def empty_layout_def member_align_def align_to_def
  pack_at_struct_def pragma_pack_push_def pack_default_def

lemma packed_half3_layout_eval:
  "packed_half3_layout metal_target =
     \<lparr> layout_fields =
         [\<lparr> field_name = ''x'', field_offset = 0, field_size = 2, field_align = 2 \<rparr>,
          \<lparr> field_name = ''y'', field_offset = 2, field_size = 2, field_align = 2 \<rparr>,
          \<lparr> field_name = ''z'', field_offset = 4, field_size = 2, field_align = 2 \<rparr>],
       data_size = 6, struct_align = 2 \<rparr>"
  by (simp add: packed_half3_layout_def layout_defs metal_target_types)

lemma packed_half3_eval:
  "packed_half3 metal_target = \<lparr> size_of = 6, align_of = 2 \<rparr>"
  by (simp add: packed_half3_def struct_type_def struct_size_def packed_half3_layout_eval
      align_to_def)

lemma SolidBrushVertex_eval:
  "SolidBrushVertex metal_target =
     \<lparr> layout_fields =
         [\<lparr> field_name = ''position'', field_offset = 0, field_size = 12, field_align = 4 \<rparr>,
          \<lparr> field_name = ''normal'', field_offset = 12, field_size = 12, field_align = 4 \<rparr>,
          \<lparr> field_name = ''bitangent'', field_offset = 24, field_size = 12, field_align = 4 \<rparr>,
          \<lparr> field_name = ''curveDistance'', field_offset = 36, field_size = 4, field_align = 4 \<rparr>,
          \<lparr> field_name = ''color'', field_offset = 40, field_size = 6, field_align = 2 \<rparr>],
       data_size = 46, struct_align = 4 \<rparr>"
  by (simp add: SolidBrushVertex_def layout_defs packed_float3_def packed_half3_eval
      metal_target_types)

lemma SolidBrushVertex_materialProperties_eval:
  "SolidBrushVertex_materialProperties metal_target =
     \<lparr> layout_fields =
         [\<lparr> field_name = ''position'', field_offset = 0, field_size = 12, field_align = 4 \<rparr>,
          \<lparr> field_name = ''normal'', field_offset = 12, field_size = 12, field_align = 4 \<rparr>,
          \<lparr> field_name = ''bitangent'', field_offset = 24, field_size = 12, field_align = 4 \<rparr>,
          \<lparr> field_name = ''materialProperties'', field_offset = 36, field_size = 8,
            field_align = 4 \<rparr>,
          \<lparr> field_name = ''curveDistance'', field_offset = 44, field_size = 4, field_align = 4 \<rparr>,
          \<lparr> field_name = ''color'', field_offset = 48, field_size = 6, field_align = 2 \<rparr>],
       data_size = 54, struct_align = 4 \<rparr>"
  by (simp add: SolidBrushVertex_materialProperties_def layout_defs packed_float3_def
      packed_float2_def packed_half3_eval metal_target_types)

lemma SolidBrushVertex_size_eval: "struct_size (SolidBrushVertex metal_target) = 48"
  by (simp add: struct_size_def SolidBrushVertex_eval align_to_def)

lemma SolidBrushVertex_type_eval:
  "struct_type (SolidBrushVertex metal_target) = \<lparr> size_of = 48, align_of = 4 \<rparr>"
proof -
  have "align_of (struct_type (SolidBrushVertex metal_target)) = 4"
    by (simp add: struct_type_def SolidBrushVertex_eval)
  moreover have "size_of (struct_type (SolidBrushVertex metal_target)) = 48"
    by (simp add: struct_type_def SolidBrushVertex_size_eval)
  ultimately show ?thesis by simp
qed

lemma packed_half3_of_Float16:
  assumes "Float16_t T = \<lparr> size_of = 2, align_of = 2 \<rparr>"
  shows "packed_half3 T = \<lparr> size_of = 6, align_of = 2 \<rparr>"
proof -
  have "packed_half3_layout T =
     \<lparr> layout_fields =
         [\<lparr> field_name = ''x'', field_offset = 0, field_size = 2, field_align = 2 \<rparr>,
          \<lparr> field_name = ''y'', field_offset = 2, field_size = 2, field_align = 2 \<rparr>,
          \<lparr> field_name = ''z'', field_offset = 4, field_size = 2, field_align = 2 \<rparr>],
       data_size = 6, struct_align = 2 \<rparr>"
    by (simp add: packed_half3_layout_def layout_defs assms)
  then show ?thesis
    by (simp add: packed_half3_def struct_type_def struct_size_def align_to_def)
qed

text \<open>
  A target whose three-float vector is the 16-byte, 16-aligned \<^verbatim>\<open>simd_float3\<close> kind
  instead of the packed one: the struct grows to 60 bytes there.
\<close>

lemma SolidBrushVertex_size_unpacked_float3:
  "struct_size (SolidBrushVertex
     (metal_target\<lparr> MTLPackedFloat3 := \<lparr> size_of = 16, align_of = 16 \<rparr> \<rparr>)) = 60"
proof -
  let ?T = "metal_target\<lparr> MTLPackedFloat3 := \<lparr> size_of = 16, align_of = 16 \<rparr> \<rparr>"
  have h: "packed_half3 ?T = \<lparr> size_of = 6, align_of = 2 \<rparr>"
    by (rule packed_half3_of_Float16) (simp add: metal_target_def)
  have t: "float_t ?T = \<lparr> size_of = 4, align_of = 4 \<rparr>"
    "MTLPackedFloat3 ?T = \<lparr> size_of = 16, align_of = 16 \<rparr>"
    by (simp_all add: metal_target_def)
  have "SolidBrushVertex ?T =
     \<lparr> layout_fields =
         [\<lparr> field_name = ''position'', field_offset = 0, field_size = 16, field_align = 4 \<rparr>,
          \<lparr> field_name = ''normal'', field_offset = 16, field_size = 16, field_align = 4 \<rparr>,
          \<lparr> field_name = ''bitangent'', field_offset = 32, field_size = 16, field_align = 4 \<rparr>,
          \<lparr> field_name = ''curveDistance'', field_offset = 48, field_size = 4, field_align = 4 \<rparr>,
          \<lparr> field_name = ''color'', field_offset = 52, field_size = 6, field_align = 2 \<rparr>],
       data_size = 58, struct_align = 4 \<rparr>"
    by (simp add: SolidBrushVertex_def layout_defs packed_float3_def h t)
  then show ?thesis
    by (simp add: struct_size_def align_to_def)
qed

section \<open>Stores and loads\<close>

lemma store_length: "store obj off v = Some obj' \<Longrightarrow> length obj' = length obj"
  by (auto simp: store_def split: if_splits)

lemma load_store_same:
  "store obj off v = Some obj' \<Longrightarrow> load obj' off (length v) = Some v"
  by (auto simp: store_def load_def split: if_splits)

lemma load_store_other:
  assumes "store obj off v = Some obj'" and "off2 + n \<le> off \<or> off + length v \<le> off2"
  shows "load obj' off2 n = load obj off2 n"
proof -
  from assms(1) have le: "off + length v \<le> length obj"
    and obj': "obj' = take off obj @ v @ drop (off + length v) obj"
    by (auto simp: store_def split: if_splits)
  have len: "length obj' = length obj" using assms(1) by (rule store_length)
  show ?thesis
  proof (cases "off2 + n \<le> length obj")
    case False
    then show ?thesis by (simp add: load_def len)
  next
    case True
    have "take n (drop off2 obj') = take n (drop off2 obj)"
    proof (rule nth_equalityI)
      show "length (take n (drop off2 obj')) = length (take n (drop off2 obj))"
        by (simp add: len)
    next
      fix i assume "i < length (take n (drop off2 obj'))"
      then have i: "i < n" by simp
      from assms(2) show "take n (drop off2 obj') ! i = take n (drop off2 obj) ! i"
      proof
        assume "off2 + n \<le> off"
        with i le True show ?thesis
          by (simp add: obj' nth_append)
      next
        assume a: "off + length v \<le> off2"
        with i le True have "off2 + i - off - length v + (off + length v) = off2 + i"
          by simp
        with a i le True show ?thesis
          by (simp add: obj' nth_append) 
      qed
    qed
    with True show ?thesis by (simp add: load_def len)
  qed
qed

lemma fields_disjoint:
  "f \<in> set (layout_fields (SolidBrushVertex metal_target)) \<Longrightarrow>
   g \<in> set (layout_fields (SolidBrushVertex metal_target)) \<Longrightarrow> g \<noteq> f \<Longrightarrow>
   field_offset g + field_size g \<le> field_offset f \<or> field_offset f + field_size f \<le> field_offset g"
  by (auto simp: SolidBrushVertex_eval)

lemma fields_within:
  "f \<in> set (layout_fields (SolidBrushVertex metal_target)) \<Longrightarrow>
   field_offset f + field_size f \<le> struct_size (SolidBrushVertex metal_target)"
  unfolding SolidBrushVertex_size_eval by (auto simp: SolidBrushVertex_eval)

lemma store_field_frame:
  assumes "store_field f v obj = Some obj'" and "separate f g"
  shows "load_field g obj' = load_field g obj"
proof -
  from assms(1) have v: "length v = field_size f"
    and st: "store obj (field_offset f) v = Some obj'"
    by (auto simp: store_field_def split: if_splits)
  from assms(2) v have "field_offset g + field_size g \<le> field_offset f
      \<or> field_offset f + length v \<le> field_offset g"
    by (simp add: separate_def)
  from load_store_other [OF st this] show ?thesis by (simp add: load_field_def)
qed

lemma store_fields_load:
  assumes "all_separate fs"
    and "\<forall>f \<in> set fs. field_offset f + field_size f \<le> length obj"
    and "\<forall>f \<in> set fs. length (vals (field_name f)) = field_size f"
  shows "\<exists>obj'. store_fields fs vals obj = Some obj'
           \<and> length obj' = length obj
           \<and> (\<forall>f \<in> set fs. load_field f obj' = Some (vals (field_name f)))
           \<and> (\<forall>g. (\<forall>f \<in> set fs. separate f g) \<longrightarrow> load_field g obj' = load_field g obj)"
  using assms
proof (induction fs arbitrary: obj)
  case Nil
  then show ?case by simp
next
  case (Cons f fs)
  let ?v = "vals (field_name f)"
  from Cons.prems have v: "length ?v = field_size f"
    and fit: "field_offset f + field_size f \<le> length obj" by simp_all
  then obtain obj1 where st: "store obj (field_offset f) ?v = Some obj1"
    by (auto simp: store_def)
  then have sf: "store_field f ?v obj = Some obj1" using v by (simp add: store_field_def)
  have len1: "length obj1 = length obj" using st by (rule store_length)
  have own: "load_field f obj1 = Some ?v"
    using load_store_same [OF st] v by (simp add: load_field_def)
  from Cons.prems have sep: "\<forall>g \<in> set fs. separate f g" and rest: "all_separate fs"
    by (simp_all add: list_all_iff)
  from Cons.prems len1 have fits: "\<forall>g \<in> set fs. field_offset g + field_size g \<le> length obj1"
    and lens: "\<forall>g \<in> set fs. length (vals (field_name g)) = field_size g" by simp_all
  from Cons.IH [OF rest fits lens] obtain obj' where
    a: "store_fields fs vals obj1 = Some obj'" and
    b: "length obj' = length obj1" and
    c: "\<forall>g \<in> set fs. load_field g obj' = Some (vals (field_name g))" and
    d: "\<forall>g. (\<forall>h \<in> set fs. separate h g) \<longrightarrow> load_field g obj' = load_field g obj1"
    by blast
  have sym: "separate h g \<Longrightarrow> separate g h" for g h by (auto simp: separate_def)
  have "load_field f obj' = load_field f obj1" using d sep sym by blast
  with own have e: "load_field f obj' = Some ?v" by simp
  have "load_field g obj' = load_field g obj" if "\<forall>h \<in> set (f # fs). separate h g" for g
  proof -
    from that have "load_field g obj' = load_field g obj1" using d by simp
    also from that have "\<dots> = load_field g obj" using store_field_frame [OF sf] by simp
    finally show ?thesis .
  qed
  with a b c e sf len1 show ?case by simp
qed

lemma SolidBrushVertex_all_separate:
  "all_separate (layout_fields (SolidBrushVertex metal_target))"
  by (simp add: SolidBrushVertex_eval separate_def)

lemma member_byte_iff: "member_byte (SolidBrushVertex metal_target) b = (b < 46)"
  unfolding member_byte_def field_covers_def SolidBrushVertex_eval
  by (simp add: ) arith

lemma SolidBrushVertex_field_store_load:
  assumes f: "f \<in> set (layout_fields (SolidBrushVertex metal_target))"
    and obj: "length obj = struct_size (SolidBrushVertex metal_target)"
    and v: "length v = field_size f"
  shows "\<exists>obj'. store_field f v obj = Some obj'
           \<and> length obj' = 48
           \<and> load_field f obj' = Some v
           \<and> (\<forall>g \<in> set (layout_fields (SolidBrushVertex metal_target)).
                 g \<noteq> f \<longrightarrow>
                   load_field g obj' = load_field g obj
                   \<and> \<not> (\<exists>b. field_covers f b \<and> field_covers g b))"
proof -
  from fields_within [OF f] obj v
  obtain obj' where st: "store obj (field_offset f) v = Some obj'"
    by (auto simp: store_def)
  have 1: "store_field f v obj = Some obj'" using st v by (simp add: store_field_def)
  have 2: "length obj' = 48" using store_length [OF st] obj
    by (simp add: SolidBrushVertex_size_eval)
  have 3: "load_field f obj' = Some v" using load_store_same [OF st] v
    by (simp add: load_field_def)
  have 4: "load_field g obj' = load_field g obj \<and> \<not> (\<exists>b. field_covers f b \<and> field_covers g b)"
    if g: "g \<in> set (layout_fields (SolidBrushVertex metal_target))" and ne: "g \<noteq> f" for g
  proof -
    from fields_disjoint [OF f g ne] v
    have d: "field_offset g + field_size g \<le> field_offset f
             \<or> field_offset f + length v \<le> field_offset g" by simp
    have "load_field g obj' = load_field g obj"
      unfolding load_field_def by (rule load_store_other [OF st d])
    moreover from d v have "\<not> (\<exists>b. field_covers f b \<and> field_covers g b)"
      by (auto simp: field_covers_def)
    ultimately show ?thesis by simp
  qed
  from 1 2 3 4 show ?thesis by blast
qed


lemma SolidBrushVertex_fields_store_load:
  assumes "length obj = struct_size (SolidBrushVertex metal_target)"
    and "\<forall>f \<in> set (layout_fields (SolidBrushVertex metal_target)).
           length (vals (field_name f)) = field_size f"
  shows "\<exists>obj'. store_fields (layout_fields (SolidBrushVertex metal_target)) vals obj = Some obj'
           \<and> length obj' = 48
           \<and> (\<forall>f \<in> set (layout_fields (SolidBrushVertex metal_target)).
                 load_field f obj' = Some (vals (field_name f)))"
proof -
  have "\<forall>f \<in> set (layout_fields (SolidBrushVertex metal_target)).
          field_offset f + field_size f \<le> length obj"
    using fields_within assms(1) by simp
  from store_fields_load [OF SolidBrushVertex_all_separate this assms(2)] assms(1)
  show ?thesis by (auto simp: SolidBrushVertex_size_eval)
qed

section \<open>The pack value caps every alignment\<close>

lemma layout_field_pack_bound:
  assumes "struct_align L \<le> p"
    and "\<forall>f \<in> set (layout_fields L). field_align f \<le> p"
  shows "struct_align (foldl (layout_field (Some p)) L ms) \<le> p
         \<and> (\<forall>f \<in> set (layout_fields (foldl (layout_field (Some p)) L ms)). field_align f \<le> p)"
  using assms
proof (induction ms arbitrary: L)
  case Nil
  then show ?case by simp
next
  case (Cons m ms)
  have "struct_align (layout_field (Some p) L m) \<le> p"
    using Cons.prems(1) by (simp add: layout_field_def Let_def member_align_def)
  moreover have "\<forall>f \<in> set (layout_fields (layout_field (Some p) L m)). field_align f \<le> p"
    using Cons.prems(2) by (auto simp: layout_field_def Let_def member_align_def)
  ultimately show ?case using Cons.IH by simp
qed

lemma layout_field_aligns:
  "map field_align (layout_fields (foldl (layout_field pack) L ms))
     = map field_align (layout_fields L) @ map (\<lambda>m. member_align pack (snd m)) ms"
  by (induction ms arbitrary: L) (simp_all add: layout_field_def Let_def)

lemma SolidBrushVertex_pack_bound:
  "struct_align (SolidBrushVertex T) \<le> 4
   \<and> (\<forall>f \<in> set (layout_fields (SolidBrushVertex T)). field_align f \<le> 4)"
proof -
  have p: "pack_current pack_at_struct = Some 4"
    by (simp add: pack_at_struct_def pragma_pack_push_def)
  have "struct_align empty_layout \<le> 4"
    and "\<forall>f \<in> set (layout_fields empty_layout). field_align f \<le> 4"
    by (simp_all add: empty_layout_def)
  from layout_field_pack_bound [OF this] show ?thesis
    unfolding SolidBrushVertex_def c_struct_def p .
qed

lemma SolidBrushVertex_field_aligns:
  "map field_align (layout_fields (SolidBrushVertex T))
     = [min 4 (align_of (packed_float3 T)), min 4 (align_of (packed_float3 T)),
        min 4 (align_of (packed_float3 T)), min 4 (align_of (float_t T)),
        min 4 (align_of (packed_half3 T))]"
proof -
  have p: "pack_current pack_at_struct = Some 4"
    by (simp add: pack_at_struct_def pragma_pack_push_def)
  show ?thesis
    unfolding SolidBrushVertex_def c_struct_def p layout_field_aligns
    by (simp add: empty_layout_def member_align_def)
qed

lemma SolidBrushVertex_eval_float3_16:
  "SolidBrushVertex (metal_target\<lparr> MTLPackedFloat3 := \<lparr> size_of = 16, align_of = 16 \<rparr> \<rparr>) =
     \<lparr> layout_fields =
         [\<lparr> field_name = ''position'', field_offset = 0, field_size = 16, field_align = 4 \<rparr>,
          \<lparr> field_name = ''normal'', field_offset = 16, field_size = 16, field_align = 4 \<rparr>,
          \<lparr> field_name = ''bitangent'', field_offset = 32, field_size = 16, field_align = 4 \<rparr>,
          \<lparr> field_name = ''curveDistance'', field_offset = 48, field_size = 4, field_align = 4 \<rparr>,
          \<lparr> field_name = ''color'', field_offset = 52, field_size = 6, field_align = 2 \<rparr>],
       data_size = 58, struct_align = 4 \<rparr>"
proof -
  let ?T = "metal_target\<lparr> MTLPackedFloat3 := \<lparr> size_of = 16, align_of = 16 \<rparr> \<rparr>"
  have h: "packed_half3 ?T = \<lparr> size_of = 6, align_of = 2 \<rparr>"
    by (rule packed_half3_of_Float16) (simp add: metal_target_def)
  have t: "float_t ?T = \<lparr> size_of = 4, align_of = 4 \<rparr>"
    "MTLPackedFloat3 ?T = \<lparr> size_of = 16, align_of = 16 \<rparr>"
    by (simp_all add: metal_target_def)
  show ?thesis
    by (simp add: SolidBrushVertex_def layout_defs packed_float3_def h t)
qed

section \<open>The claims\<close>

text \<open>
  C10. \<^verbatim>\<open>packed_half3\<close> has no padding: its members x, y, z lie at byte offsets 0, 2
  and 4, its size is 6 bytes and its alignment is 2 bytes.
\<close>

theorem packed_half3_padding_free:
  "map (\<lambda>f. (field_name f, field_offset f, field_size f))
       (layout_fields (packed_half3_layout metal_target))
     = [(''x'', 0, 2), (''y'', 2, 2), (''z'', 4, 2)]
   \<and> offsetof (packed_half3_layout metal_target) ''x'' = Some 0
   \<and> offsetof (packed_half3_layout metal_target) ''y'' = Some 2
   \<and> offsetof (packed_half3_layout metal_target) ''z'' = Some 4
   \<and> size_of (packed_half3 metal_target) = 6
   \<and> align_of (packed_half3 metal_target) = 2
   \<and> data_size (packed_half3_layout metal_target) = size_of (packed_half3 metal_target)"
  by (simp add: packed_half3_layout_eval packed_half3_eval offsetof_def)

text \<open>
  C1. The size of \<^verbatim>\<open>struct SolidBrushVertex\<close> is exactly 48 bytes, and the active static
  assertion enforces it: on the Metal targets the size is 48 and the header builds; on
  any target at all, the header builds only if the size is 48, and stops with the
  assertion's message otherwise.
\<close>

theorem SolidBrushVertex_sizeof_48:
  "struct_size (SolidBrushVertex metal_target) = 48
   \<and> translation_unit metal_target = Inr (SolidBrushVertex metal_target)
   \<and> (\<forall>T L. translation_unit T = Inr L \<longrightarrow> L = SolidBrushVertex T \<and> struct_size L = 48)
   \<and> (\<forall>T. struct_size (SolidBrushVertex T) \<noteq> 48 \<longrightarrow>
          translation_unit T = Inl (Static_assert_failed ''ensure packing''))"
  by (auto simp: translation_unit_def static_assert_def SolidBrushVertex_size_eval
      split: if_splits)

theorem SolidBrushVertex_sizeof_48_witness:
  "translation_unit metal_target = Inr (SolidBrushVertex metal_target)
   \<and> struct_size (SolidBrushVertex metal_target) = 48
   \<and> struct_size (SolidBrushVertex
        (metal_target\<lparr> MTLPackedFloat3 := \<lparr> size_of = 16, align_of = 16 \<rparr> \<rparr>)) \<noteq> 48
   \<and> translation_unit (metal_target\<lparr> MTLPackedFloat3 := \<lparr> size_of = 16, align_of = 16 \<rparr> \<rparr>)
       = Inl (Static_assert_failed ''ensure packing'')"
proof -
  have "struct_size (SolidBrushVertex
          (metal_target\<lparr> MTLPackedFloat3 := \<lparr> size_of = 16, align_of = 16 \<rparr> \<rparr>)) \<noteq> 48"
    by (simp add: SolidBrushVertex_size_unpacked_float3)
  with SolidBrushVertex_sizeof_48 show ?thesis by blast
qed

text \<open>
  C2. Under the 4-byte packing the members of \<^verbatim>\<open>SolidBrushVertex\<close> lie, in declared
  order, at byte offsets position = 0, normal = 12, bitangent = 24, curveDistance = 36,
  color = 40.
\<close>

theorem SolidBrushVertex_offsets:
  "map (\<lambda>f. (field_name f, field_offset f)) (layout_fields (SolidBrushVertex metal_target))
     = [(''position'', 0), (''normal'', 12), (''bitangent'', 24),
        (''curveDistance'', 36), (''color'', 40)]
   \<and> offsetof (SolidBrushVertex metal_target) ''position'' = Some 0
   \<and> offsetof (SolidBrushVertex metal_target) ''normal'' = Some 12
   \<and> offsetof (SolidBrushVertex metal_target) ''bitangent'' = Some 24
   \<and> offsetof (SolidBrushVertex metal_target) ''curveDistance'' = Some 36
   \<and> offsetof (SolidBrushVertex metal_target) ''color'' = Some 40
   \<and> pack_current pack_at_struct = Some 4"
  by (simp add: SolidBrushVertex_eval offsetof_def pack_at_struct_def pragma_pack_push_def)

text \<open>
  C3. Every member has its packed width: position, normal and bitangent 12 bytes each
  (not 16), curveDistance 4 bytes, and color, a struct of three 2-byte \<^verbatim>\<open>_Float16\<close>,
  6 bytes.
\<close>

theorem SolidBrushVertex_widths:
  "map (\<lambda>f. (field_name f, field_size f)) (layout_fields (SolidBrushVertex metal_target))
     = [(''position'', 12), (''normal'', 12), (''bitangent'', 12),
        (''curveDistance'', 4), (''color'', 6)]
   \<and> size_of (packed_float3 metal_target) = 12
   \<and> size_of (float_t metal_target) = 4
   \<and> size_of (packed_half3 metal_target) = 6
   \<and> map field_size (layout_fields (packed_half3_layout metal_target)) = [2, 2, 2]"
  by (simp add: SolidBrushVertex_eval packed_half3_eval packed_half3_layout_eval
      packed_float3_def metal_target_types)

text \<open>
  C5. With the commented-out member \<^verbatim>\<open>packed_float2 materialProperties\<close> (8 bytes) back
  between bitangent and curveDistance, under the same 4-byte packing, the size of the
  struct is exactly 56 bytes, the value of the commented-out assertion.
\<close>

theorem SolidBrushVertex_materialProperties_sizeof_56:
  "struct_size (SolidBrushVertex_materialProperties metal_target) = 56
   \<and> size_of (packed_float2 metal_target) = 8
   \<and> map (\<lambda>f. (field_name f, field_offset f))
        (layout_fields (SolidBrushVertex_materialProperties metal_target))
     = [(''position'', 0), (''normal'', 12), (''bitangent'', 24),
        (''materialProperties'', 36), (''curveDistance'', 44), (''color'', 48)]
   \<and> static_assert (struct_size (SolidBrushVertex_materialProperties metal_target) = 56)
        ''ensure packing'' = Inr ()"
  by (simp add: struct_size_def SolidBrushVertex_materialProperties_eval align_to_def
      static_assert_def packed_float2_def metal_target_types)

text \<open>
  C9. In an array of \<^verbatim>\<open>SolidBrushVertex\<close> element \<open>i\<close> begins at byte \<open>48 * i\<close>: the stride
  is the struct's size, an element ends where the next begins, and every element
  begins at a multiple of the struct's alignment.
\<close>

theorem SolidBrushVertex_array_stride:
  "array_element_offset (struct_type (SolidBrushVertex metal_target)) i = 48 * i
   \<and> array_element_offset (struct_type (SolidBrushVertex metal_target)) (Suc i)
       = array_element_offset (struct_type (SolidBrushVertex metal_target)) i
         + struct_size (SolidBrushVertex metal_target)
   \<and> align_of (struct_type (SolidBrushVertex metal_target))
       dvd array_element_offset (struct_type (SolidBrushVertex metal_target)) i"
  by (simp add: array_element_offset_def SolidBrushVertex_type_eval
      SolidBrushVertex_size_eval)

text \<open>
  C7. The 4-byte pack value is in force for the whole struct declaration and for
  nothing after it, and it governs the layout: on every target the alignment of
  \<^verbatim>\<open>SolidBrushVertex\<close> and of each of its members is at most 4, each member's alignment
  being its type's alignment capped at 4. On the Metal targets the alignment of the
  struct is 4 bytes, and every member's offset is a multiple of 4 or is the end of the
  member before it.
\<close>

theorem SolidBrushVertex_pack_4:
  "pack_current pack_at_struct = Some 4
   \<and> pack_current pack_after_struct = None
   \<and> struct_align (SolidBrushVertex metal_target) = 4
   \<and> (\<forall>i < length (layout_fields (SolidBrushVertex metal_target)).
         4 dvd field_offset (layout_fields (SolidBrushVertex metal_target) ! i)
         \<or> (0 < i \<and> field_offset (layout_fields (SolidBrushVertex metal_target) ! i)
               = field_offset (layout_fields (SolidBrushVertex metal_target) ! (i - 1))
                 + field_size (layout_fields (SolidBrushVertex metal_target) ! (i - 1))))
   \<and> (\<forall>T. struct_align (SolidBrushVertex T) \<le> 4
         \<and> (\<forall>f \<in> set (layout_fields (SolidBrushVertex T)). field_align f \<le> 4)
         \<and> map field_align (layout_fields (SolidBrushVertex T))
             = [min 4 (align_of (packed_float3 T)), min 4 (align_of (packed_float3 T)),
                min 4 (align_of (packed_float3 T)), min 4 (align_of (float_t T)),
                min 4 (align_of (packed_half3 T))])"
proof -
  have a: "pack_current pack_at_struct = Some 4
   \<and> pack_current pack_after_struct = None
   \<and> struct_align (SolidBrushVertex metal_target) = 4
   \<and> (\<forall>i < length (layout_fields (SolidBrushVertex metal_target)).
         4 dvd field_offset (layout_fields (SolidBrushVertex metal_target) ! i)
         \<or> (0 < i \<and> field_offset (layout_fields (SolidBrushVertex metal_target) ! i)
               = field_offset (layout_fields (SolidBrushVertex metal_target) ! (i - 1))
                 + field_size (layout_fields (SolidBrushVertex metal_target) ! (i - 1))))"
    by (simp add: SolidBrushVertex_eval pack_at_struct_def pack_after_struct_def
        pragma_pack_push_def pragma_pack_pop_def pack_default_def All_less_Suc)
  have b: "\<forall>T. struct_align (SolidBrushVertex T) \<le> 4
         \<and> (\<forall>f \<in> set (layout_fields (SolidBrushVertex T)). field_align f \<le> 4)
         \<and> map field_align (layout_fields (SolidBrushVertex T))
             = [min 4 (align_of (packed_float3 T)), min 4 (align_of (packed_float3 T)),
                min 4 (align_of (packed_float3 T)), min 4 (align_of (float_t T)),
                min 4 (align_of (packed_half3 T))]"
  proof (intro allI conjI)
    fix T
    show "struct_align (SolidBrushVertex T) \<le> 4"
      using SolidBrushVertex_pack_bound [of T] by (rule conjunct1)
    show "\<forall>f \<in> set (layout_fields (SolidBrushVertex T)). field_align f \<le> 4"
      using SolidBrushVertex_pack_bound [of T] by (rule conjunct2)
    show "map field_align (layout_fields (SolidBrushVertex T))
             = [min 4 (align_of (packed_float3 T)), min 4 (align_of (packed_float3 T)),
                min 4 (align_of (packed_float3 T)), min 4 (align_of (float_t T)),
                min 4 (align_of (packed_half3 T))]"
      by (rule SolidBrushVertex_field_aligns)
  qed
  from a b show ?thesis by (elim conjE) (intro conjI; assumption)
qed

theorem SolidBrushVertex_pack_4_witness:
  "4 < length (layout_fields (SolidBrushVertex metal_target))
   \<and> (4 dvd field_offset (layout_fields (SolidBrushVertex metal_target) ! 4)
        \<or> field_offset (layout_fields (SolidBrushVertex metal_target) ! 4)
            = field_offset (layout_fields (SolidBrushVertex metal_target) ! 3)
              + field_size (layout_fields (SolidBrushVertex metal_target) ! 3))
   \<and> align_of (packed_float3
        (metal_target\<lparr> MTLPackedFloat3 := \<lparr> size_of = 16, align_of = 16 \<rparr> \<rparr>)) = 16
   \<and> struct_align (SolidBrushVertex
        (metal_target\<lparr> MTLPackedFloat3 := \<lparr> size_of = 16, align_of = 16 \<rparr> \<rparr>)) \<le> 4
   \<and> \<lparr> field_name = ''position'', field_offset = 0, field_size = 16, field_align = 4 \<rparr>
        \<in> set (layout_fields (SolidBrushVertex
              (metal_target\<lparr> MTLPackedFloat3 := \<lparr> size_of = 16, align_of = 16 \<rparr> \<rparr>)))
   \<and> field_align
        \<lparr> field_name = ''position'', field_offset = 0, field_size = 16, field_align = 4 \<rparr> \<le> 4"
proof -
  let ?T = "metal_target\<lparr> MTLPackedFloat3 := \<lparr> size_of = 16, align_of = 16 \<rparr> \<rparr>"
  let ?pos = "\<lparr> field_name = ''position'', field_offset = 0, field_size = 16, field_align = 4 \<rparr>"
  note main = SolidBrushVertex_pack_4
  have len: "4 < length (layout_fields (SolidBrushVertex metal_target))"
    by (simp add: SolidBrushVertex_eval)
  from main have "\<forall>i < length (layout_fields (SolidBrushVertex metal_target)).
         4 dvd field_offset (layout_fields (SolidBrushVertex metal_target) ! i)
         \<or> (0 < i \<and> field_offset (layout_fields (SolidBrushVertex metal_target) ! i)
               = field_offset (layout_fields (SolidBrushVertex metal_target) ! (i - 1))
                 + field_size (layout_fields (SolidBrushVertex metal_target) ! (i - 1)))"
    by (elim conjE)
  from this [rule_format, OF len]
  have 1: "4 dvd field_offset (layout_fields (SolidBrushVertex metal_target) ! 4)
        \<or> field_offset (layout_fields (SolidBrushVertex metal_target) ! 4)
            = field_offset (layout_fields (SolidBrushVertex metal_target) ! 3)
              + field_size (layout_fields (SolidBrushVertex metal_target) ! 3)"
    by simp
  from main have all: "\<forall>T. struct_align (SolidBrushVertex T) \<le> 4
         \<and> (\<forall>f \<in> set (layout_fields (SolidBrushVertex T)). field_align f \<le> 4)
         \<and> map field_align (layout_fields (SolidBrushVertex T))
             = [min 4 (align_of (packed_float3 T)), min 4 (align_of (packed_float3 T)),
                min 4 (align_of (packed_float3 T)), min 4 (align_of (float_t T)),
                min 4 (align_of (packed_half3 T))]"
    by (elim conjE)
  from all have at: "struct_align (SolidBrushVertex ?T) \<le> 4
         \<and> (\<forall>f \<in> set (layout_fields (SolidBrushVertex ?T)). field_align f \<le> 4)
         \<and> map field_align (layout_fields (SolidBrushVertex ?T))
             = [min 4 (align_of (packed_float3 ?T)), min 4 (align_of (packed_float3 ?T)),
                min 4 (align_of (packed_float3 ?T)), min 4 (align_of (float_t ?T)),
                min 4 (align_of (packed_half3 ?T))]"
    by (rule spec)
  from at have 2: "struct_align (SolidBrushVertex ?T) \<le> 4"
    by (rule conjunct1)
  from at have 3: "\<forall>f \<in> set (layout_fields (SolidBrushVertex ?T)). field_align f \<le> 4"
    by (elim conjE)
  have mem: "?pos \<in> set (layout_fields (SolidBrushVertex ?T))"
    by (simp add: SolidBrushVertex_eval_float3_16)
  from bspec [OF 3 mem] have 4: "field_align ?pos \<le> 4" .
  have nat16: "align_of (packed_float3 ?T) = 16"
    by (simp add: packed_float3_def metal_target_def)
  from len 1 nat16 2 mem 4 show ?thesis by (intro conjI)
qed

text \<open>
  C8. The member widths sum to 46 bytes, two less than the size of 48: the struct ends
  in exactly 2 bytes of tail padding. Of the 48 bytes of an object, bytes 46 and 47, and
  only they, belong to no member.
\<close>

theorem SolidBrushVertex_tail_padding:
  "sum_list (map field_size (layout_fields (SolidBrushVertex metal_target))) = 46
   \<and> data_size (SolidBrushVertex metal_target) = 46
   \<and> struct_size (SolidBrushVertex metal_target) = 48
   \<and> struct_size (SolidBrushVertex metal_target) - data_size (SolidBrushVertex metal_target) = 2
   \<and> (\<forall>b < struct_size (SolidBrushVertex metal_target).
         member_byte (SolidBrushVertex metal_target) b = (b \<noteq> 46 \<and> b \<noteq> 47))"
  apply (simp add: SolidBrushVertex_size_eval member_byte_iff)
  apply (simp add: SolidBrushVertex_eval)
  by arith

theorem SolidBrushVertex_tail_padding_witness:
  "46 < struct_size (SolidBrushVertex metal_target)
   \<and> \<not> member_byte (SolidBrushVertex metal_target) 46
   \<and> 45 < struct_size (SolidBrushVertex metal_target)
   \<and> member_byte (SolidBrushVertex metal_target) 45"
proof -
  have a: "46 < struct_size (SolidBrushVertex metal_target)"
    and b: "45 < struct_size (SolidBrushVertex metal_target)"
    by (simp_all add: SolidBrushVertex_size_eval)
  from SolidBrushVertex_tail_padding a
  have "member_byte (SolidBrushVertex metal_target) 46 = ((46::nat) \<noteq> 46 \<and> (46::nat) \<noteq> 47)"
    by blast
  moreover from SolidBrushVertex_tail_padding b
  have "member_byte (SolidBrushVertex metal_target) 45 = ((45::nat) \<noteq> 46 \<and> (45::nat) \<noteq> 47)"
    by blast
  ultimately show ?thesis using a b by simp
qed

text \<open>
  C6. For every object of the struct and every member: writing the member's value at
  its offset and reading it back from there gives the same bytes, the write leaves
  every other member's bytes as they were, and no byte belongs to two members; and
  writing all five members and then reading each gives back what was written.
\<close>

theorem SolidBrushVertex_roundtrip:
  assumes "length obj = struct_size (SolidBrushVertex metal_target)"
    and "\<forall>f \<in> set (layout_fields (SolidBrushVertex metal_target)).
           length (vals (field_name f)) = field_size f"
  shows "(\<forall>f \<in> set (layout_fields (SolidBrushVertex metal_target)).
            \<exists>obj'. store_field f (vals (field_name f)) obj = Some obj'
              \<and> length obj' = 48
              \<and> load_field f obj' = Some (vals (field_name f))
              \<and> (\<forall>g \<in> set (layout_fields (SolidBrushVertex metal_target)).
                    g \<noteq> f \<longrightarrow>
                      load_field g obj' = load_field g obj
                      \<and> \<not> (\<exists>b. field_covers f b \<and> field_covers g b)))
         \<and> (\<exists>obj'. store_fields (layout_fields (SolidBrushVertex metal_target)) vals obj
                      = Some obj'
              \<and> length obj' = 48
              \<and> (\<forall>f \<in> set (layout_fields (SolidBrushVertex metal_target)).
                    load_field f obj' = Some (vals (field_name f))))"
proof
  show "\<forall>f \<in> set (layout_fields (SolidBrushVertex metal_target)).
            \<exists>obj'. store_field f (vals (field_name f)) obj = Some obj'
              \<and> length obj' = 48
              \<and> load_field f obj' = Some (vals (field_name f))
              \<and> (\<forall>g \<in> set (layout_fields (SolidBrushVertex metal_target)).
                    g \<noteq> f \<longrightarrow>
                      load_field g obj' = load_field g obj
                      \<and> \<not> (\<exists>b. field_covers f b \<and> field_covers g b))"
  proof
    fix f assume f: "f \<in> set (layout_fields (SolidBrushVertex metal_target))"
    with assms(2) have "length (vals (field_name f)) = field_size f" by simp
    from SolidBrushVertex_field_store_load [OF f assms(1) this]
    show "\<exists>obj'. store_field f (vals (field_name f)) obj = Some obj'
              \<and> length obj' = 48
              \<and> load_field f obj' = Some (vals (field_name f))
              \<and> (\<forall>g \<in> set (layout_fields (SolidBrushVertex metal_target)).
                    g \<noteq> f \<longrightarrow>
                      load_field g obj' = load_field g obj
                      \<and> \<not> (\<exists>b. field_covers f b \<and> field_covers g b))" .
  qed
next
  from SolidBrushVertex_fields_store_load [OF assms]
  show "\<exists>obj'. store_fields (layout_fields (SolidBrushVertex metal_target)) vals obj
                      = Some obj'
              \<and> length obj' = 48
              \<and> (\<forall>f \<in> set (layout_fields (SolidBrushVertex metal_target)).
                    load_field f obj' = Some (vals (field_name f)))" .
qed

theorem SolidBrushVertex_roundtrip_witness:
  "length (replicate 48 (0::byte)) = struct_size (SolidBrushVertex metal_target)
   \<and> (\<exists>obj'. store_field
                \<lparr> field_name = ''color'', field_offset = 40, field_size = 6, field_align = 2 \<rparr>
                [1, 2, 3, 4, 5, 6] (replicate 48 0) = Some obj'
         \<and> load_field
              \<lparr> field_name = ''color'', field_offset = 40, field_size = 6, field_align = 2 \<rparr>
              obj' = Some [1, 2, 3, 4, 5, 6]
         \<and> load_field
              \<lparr> field_name = ''curveDistance'', field_offset = 36, field_size = 4,
                field_align = 4 \<rparr> obj' = Some [0, 0, 0, 0])
   \<and> (\<exists>obj'. store_fields (layout_fields (SolidBrushVertex metal_target))
                (\<lambda>n. if n = ''color'' then [1, 2, 3, 4, 5, 6]
                     else if n = ''curveDistance'' then [7, 8, 9, 10]
                     else replicate 12 11)
                (replicate 48 0) = Some obj'
         \<and> load_field
              \<lparr> field_name = ''color'', field_offset = 40, field_size = 6, field_align = 2 \<rparr>
              obj' = Some [1, 2, 3, 4, 5, 6]
         \<and> load_field
              \<lparr> field_name = ''position'', field_offset = 0, field_size = 12, field_align = 4 \<rparr>
              obj' = Some (replicate 12 11))"
proof -
  let ?L = "SolidBrushVertex metal_target"
  let ?vals = "\<lambda>n. if n = ''color'' then [1, 2, 3, 4, 5, 6 :: byte]
                     else if n = ''curveDistance'' then [7, 8, 9, 10]
                     else replicate 12 11"
  let ?color = "\<lparr> field_name = ''color'', field_offset = 40, field_size = 6, field_align = 2 \<rparr>"
  let ?dist = "\<lparr> field_name = ''curveDistance'', field_offset = 36, field_size = 4,
                  field_align = 4 \<rparr>"
  let ?pos = "\<lparr> field_name = ''position'', field_offset = 0, field_size = 12, field_align = 4 \<rparr>"
  let ?obj = "replicate 48 (0::byte)"
  have len: "length ?obj = struct_size ?L"
    by (simp add: SolidBrushVertex_size_eval)
  have vals: "\<forall>f \<in> set (layout_fields ?L). length (?vals (field_name f)) = field_size f"
    by (simp add: SolidBrushVertex_eval)
  have color: "?color \<in> set (layout_fields ?L)" by (simp add: SolidBrushVertex_eval)
  have dist: "?dist \<in> set (layout_fields ?L)" by (simp add: SolidBrushVertex_eval)
  have pos: "?pos \<in> set (layout_fields ?L)" by (simp add: SolidBrushVertex_eval)
  have vc: "?vals (field_name ?color) = [1, 2, 3, 4, 5, 6]" by simp
  have vp: "?vals (field_name ?pos) = replicate 12 11" by simp
  note rt = SolidBrushVertex_roundtrip [where obj = ?obj and vals = ?vals, OF len vals]
  have A: "\<exists>obj'. store_field ?color [1, 2, 3, 4, 5, 6] ?obj = Some obj'
      \<and> load_field ?color obj' = Some [1, 2, 3, 4, 5, 6]
      \<and> load_field ?dist obj' = Some [0, 0, 0, 0]"
  proof -
    from rt have "\<forall>f \<in> set (layout_fields ?L).
        \<exists>obj'. store_field f (?vals (field_name f)) ?obj = Some obj'
          \<and> length obj' = 48
          \<and> load_field f obj' = Some (?vals (field_name f))
          \<and> (\<forall>g \<in> set (layout_fields ?L). g \<noteq> f \<longrightarrow>
                load_field g obj' = load_field g ?obj
                \<and> \<not> (\<exists>b. field_covers f b \<and> field_covers g b))"
      by (rule conjunct1)
    from bspec [OF this color] obtain o1 where
      1: "store_field ?color (?vals (field_name ?color)) ?obj = Some o1" and
      2: "load_field ?color o1 = Some (?vals (field_name ?color))" and
      3: "\<forall>g \<in> set (layout_fields ?L). g \<noteq> ?color \<longrightarrow>
           load_field g o1 = load_field g ?obj
           \<and> \<not> (\<exists>b. field_covers ?color b \<and> field_covers g b)"
      by (elim exE conjE)
    have "?dist \<noteq> ?color" by simp
    with bspec [OF 3 dist] have "load_field ?dist o1 = load_field ?dist ?obj"
      by (elim impE conjE)
    also have "load_field ?dist ?obj = Some (replicate 4 0)"
      by (simp add: load_field_def load_def)
    also have "replicate 4 (0::byte) = [0, 0, 0, 0]"
      by (simp add: numeral_eq_Suc)
    finally have 4: "load_field ?dist o1 = Some [0, 0, 0, 0]" .
    from 1 2 4 show ?thesis unfolding vc by (intro exI conjI)
  qed
  have B: "\<exists>obj'. store_fields (layout_fields ?L) ?vals ?obj = Some obj'
      \<and> load_field ?color obj' = Some [1, 2, 3, 4, 5, 6]
      \<and> load_field ?pos obj' = Some (replicate 12 11)"
  proof -
    from rt have "\<exists>obj'. store_fields (layout_fields ?L) ?vals ?obj = Some obj'
        \<and> length obj' = 48
        \<and> (\<forall>f \<in> set (layout_fields ?L). load_field f obj' = Some (?vals (field_name f)))"
      by (rule conjunct2)
    then obtain o2 where
      1: "store_fields (layout_fields ?L) ?vals ?obj = Some o2" and
      2: "\<forall>f \<in> set (layout_fields ?L). load_field f o2 = Some (?vals (field_name f))"
      by (elim exE conjE)
    from bspec [OF 2 color] have 3: "load_field ?color o2 = Some [1, 2, 3, 4, 5, 6]"
      unfolding vc .
    from bspec [OF 2 pos] have 4: "load_field ?pos o2 = Some (replicate 12 11)"
      unfolding vp .
    from 1 3 4 show ?thesis by (intro exI conjI)
  qed
  from len A B show ?thesis by (intro conjI)
qed

end
